theory Spec2Isabelle
  imports Complex_Main "HOL-Library.Multiset"
begin

section \<open>Domain entities (backend/server.ts)\<close>

text \<open>
  The TypeScript type \<open>number\<close> is modelled by the rationals: every finite value the
  program handles (a DECIMAL column, a decimal literal, a double) is a rational, and the
  arithmetic is taken exact; the rounding of IEEE-754 doubles is outside this model.
  What the columns \<open>amount_gco2eq DECIMAL(15, 2)\<close> and \<open>year INT\<close> of \<open>bank_entries\<close>
  do to an inserted value is part of it. A \<open>Date\<close> is a point on a discrete clock.
\<close>

type_synonym number = rat
type_synonym timestamp = nat

text \<open>\<open>interface Route\<close>; the field \<open>id\<close> is named \<open>route_pk\<close> (\<open>id\<close> is the identity of HOL).\<close>

record Route =
  route_pk :: int
  routeId :: string
  vesselType :: string
  fuelType :: string
  year :: int
  ghgIntensity :: number
  fuelConsumption :: number
  distance :: number
  totalEmissions :: number
  isBaseline :: bool

text \<open>The type \<open>'banked' | 'applied'\<close> of \<open>BankEntry.type\<close>.\<close>

datatype entry_type = Banked | Applied

text \<open>
  \<open>interface BankEntry\<close>: \<open>id\<close> and \<open>createdAt\<close> are optional. The fields carry the prefix
  \<open>entry_\<close> where \<open>Route\<close> has a field of the same name.
\<close>

record BankEntry =
  entry_id :: "int option"
  entry_routeId :: string
  entry_year :: int
  entry_type :: entry_type
  amount :: number
  createdAt :: "timestamp option"

text \<open>\<open>interface ComplianceResult\<close>.\<close>

record ComplianceResult =
  cb :: number
  banked :: number
  adjustedCB :: number

text \<open>\<open>CONSTANTS\<close>.\<close>

definition GHG_TARGET_2025 :: number where
  "GHG_TARGET_2025 = 89.3368"

definition LCV :: number where
  "LCV = 41000"

text \<open>
  The code throws \<open>new Error(message)\<close>: an error is its message. The two messages of
  \<open>ComplianceService\<close> carry the names the specification gives to them.
\<close>

datatype error = Error string

definition RouteNotFound :: error where
  "RouteNotFound = Error ''Route not found''"

definition NegativeBalanceError :: error where
  "NegativeBalanceError = Error ''Cannot bank negative compliance balance''"

text \<open>
  The two errors with which the database rejects an INSERT into \<open>bank_entries\<close>; the
  driver throws them as an \<open>Error\<close> too. (The message for the integer also quotes the
  value; the model keeps its fixed part.)
\<close>

definition IntegerOutOfRange :: error where
  "IntegerOutOfRange = Error ''value is out of range for type integer''"

definition NumericFieldOverflow :: error where
  "NumericFieldOverflow = Error ''numeric field overflow''"

section \<open>The database behind the adapters\<close>

text \<open>
  A row of the table \<open>bank_entries\<close>, with the column names of the schema (\<open>id\<close>, \<open>year\<close>
  and \<open>type\<close> prefixed by \<open>row_\<close>). The table \<open>routes\<close> is kept as the list of the
  \<open>Route\<close> objects that \<open>mapRowToRoute\<close> makes of its rows. \<open>bank_entries_id_seq\<close> is the
  last value handed out by the sequence behind the SERIAL column \<open>id\<close>.
\<close>

record bank_entries_row =
  row_id :: int
  route_id :: string
  row_year :: int
  row_type :: entry_type
  amount_gco2eq :: number
  created_at :: timestamp

record database =
  routes :: "Route list"
  bank_entries :: "bank_entries_row list"
  bank_entries_id_seq :: int

text \<open>
  \<open>PostgresRouteAdapter.findByRouteId\<close>:
  \<open>SELECT * FROM routes WHERE route_id = $1\<close>, then the first row or \<open>null\<close>.
\<close>

definition PostgresRouteAdapter_findByRouteId :: "database \<Rightarrow> string \<Rightarrow> Route option" where
  "PostgresRouteAdapter_findByRouteId db ident =
     (case filter (\<lambda>r. routeId r = ident) (routes db) of
        [] \<Rightarrow> None
      | r # _ \<Rightarrow> Some r)"

text \<open>
  \<open>PostgresBankingAdapter.findByRouteId\<close>:
  \<open>SELECT * FROM bank_entries WHERE route_id = $1\<close>, each row mapped to a \<open>BankEntry\<close>.
\<close>

definition PostgresBankingAdapter_findByRouteId :: "database \<Rightarrow> string \<Rightarrow> BankEntry list" where
  "PostgresBankingAdapter_findByRouteId db ident =
     map (\<lambda>row. \<lparr>entry_id = Some (row_id row),
                 entry_routeId = route_id row,
                 entry_year = row_year row,
                 entry_type = row_type row,
                 amount = amount_gco2eq row,
                 createdAt = Some (created_at row)\<rparr>)
         (filter (\<lambda>row. route_id row = ident) (bank_entries db))"

text \<open>
  The column types of \<open>bank_entries\<close> that an INSERT can violate. \<open>year INT\<close> holds the
  integers of 32 bits. \<open>amount_gco2eq DECIMAL(15, 2)\<close> rounds a value to two decimals, a
  tie away from zero, and holds the result when it is below \<open>10^13\<close> in absolute value
  (15 digits, two of them decimals).
\<close>

definition fits_INT :: "int \<Rightarrow> bool" where
  "fits_INT n = (- 2147483648 \<le> n \<and> n \<le> 2147483647)"

definition round_DECIMAL_15_2 :: "number \<Rightarrow> number" where
  "round_DECIMAL_15_2 x =
     (if 0 \<le> x then of_int \<lfloor>x * 100 + 1 / 2\<rfloor> / 100
      else - (of_int \<lfloor>- x * 100 + 1 / 2\<rfloor> / 100))"

definition fits_DECIMAL_15_2 :: "number \<Rightarrow> bool" where
  "fits_DECIMAL_15_2 x = (\<bar>round_DECIMAL_15_2 x\<bar> < 10 ^ 13)"

text \<open>
  \<open>PostgresBankingAdapter.save\<close>:
  \<open>INSERT INTO bank_entries (route_id, year, type, amount_gco2eq) VALUES ($1, $2, $3, $4)
  RETURNING *\<close>. The database rejects a year outside \<open>INT\<close> and an amount too large for
  the column; the exception of the driver passes through \<open>save\<close>, and no row is added
  (the model leaves the sequence as it is, too). Otherwise the row is stored with the
  amount rounded by the column, the sequence gives the identifier, \<open>CURRENT_TIMESTAMP\<close>
  (the argument \<open>now\<close>) the creation time, and the function returns \<open>res.rows[0]\<close>, the
  row as stored. The identifier passed by \<open>ComplianceService\<close> is the \<open>route_id\<close> of a
  row of \<open>routes\<close>, so the foreign key of the column \<open>route_id\<close> holds.
\<close>

definition PostgresBankingAdapter_save ::
    "database \<Rightarrow> timestamp \<Rightarrow> BankEntry \<Rightarrow> (error + bank_entries_row) \<times> database" where
  "PostgresBankingAdapter_save db now entry =
     (if \<not> fits_INT (entry_year entry) then (Inl IntegerOutOfRange, db)
      else if \<not> fits_DECIMAL_15_2 (amount entry) then (Inl NumericFieldOverflow, db)
      else
        (let row = \<lparr>row_id = bank_entries_id_seq db + 1,
                    route_id = entry_routeId entry,
                    row_year = entry_year entry,
                    row_type = entry_type entry,
                    amount_gco2eq = round_DECIMAL_15_2 (amount entry),
                    created_at = now\<rparr>
         in (Inr row, db\<lparr>bank_entries := bank_entries db @ [row],
                         bank_entries_id_seq := bank_entries_id_seq db + 1\<rparr>)))"

section \<open>ComplianceService\<close>

text \<open>\<open>ComplianceService.calculateCB(routeId, year)\<close>.\<close>

definition calculateCB :: "database \<Rightarrow> string \<Rightarrow> int \<Rightarrow> error + ComplianceResult" where
  "calculateCB db ident yr =
     (case PostgresRouteAdapter_findByRouteId db ident of
        None \<Rightarrow> Inl (Error ''Route not found'')
      | Some route \<Rightarrow>
          (let energyInScope = fuelConsumption route * LCV;
               cb' = (GHG_TARGET_2025 - ghgIntensity route) * energyInScope;
               bankEntries = PostgresBankingAdapter_findByRouteId db ident;
               bankedSum = foldl (\<lambda>sum e. sum + amount e) 0
                             (filter (\<lambda>e. entry_type e = Banked) bankEntries);
               appliedSum = foldl (\<lambda>sum e. sum + amount e) 0
                              (filter (\<lambda>e. entry_type e = Applied) bankEntries);
               netBanked = bankedSum - appliedSum
           in Inr \<lparr>cb = cb', banked = netBanked, adjustedCB = cb' + netBanked\<rparr>))"

text \<open>
  \<open>ComplianceService.bankSurplus(routeId, year)\<close>: the result and the database after
  the call. An exception of \<open>calculateCB\<close> or of \<open>save\<close> propagates.
\<close>

definition bankSurplus ::
    "database \<Rightarrow> timestamp \<Rightarrow> string \<Rightarrow> int \<Rightarrow> (error + bank_entries_row) \<times> database" where
  "bankSurplus db now ident yr =
     (case calculateCB db ident yr of
        Inl e \<Rightarrow> (Inl e, db)
      | Inr status \<Rightarrow>
          if cb status \<le> 0 then (Inl (Error ''Cannot bank negative compliance balance''), db)
          else
            (let entry = \<lparr>entry_id = None,
                          entry_routeId = ident,
                          entry_year = yr,
                          entry_type = Banked,
                          amount = cb status,
                          createdAt = None\<rparr>
             in PostgresBankingAdapter_save db now entry))"

section \<open>The pooling view (frontend/src/App.tsx)\<close>

text \<open>
  A pool member is the object \<open>{ ...r, ...comp }\<close>: the fields of the route together with
  the fields of its compliance result, kept here as a pair.
\<close>

type_synonym PoolMember = "Route \<times> ComplianceResult"

text \<open>An element \<open>{ id, before, after }\<close> of \<open>results\<close>; \<open>id\<close> is named \<open>alloc_id\<close>.\<close>

record PoolAllocation =
  alloc_id :: string
  before :: number
  after :: number

text \<open>The object \<open>{ totalCB, results, valid }\<close> handed to \<open>setPoolResult\<close>.\<close>

record PoolResult =
  totalCB :: number
  results :: "PoolAllocation list"
  valid :: bool

text \<open>
  \<open>Promise.all\<close> over calls that each return or throw: all the values in order, or an
  error as soon as one call fails (the first failure in list order is reported).
\<close>

fun Promise_all :: "(error + 'a) list \<Rightarrow> error + 'a list" where
  "Promise_all [] = Inr []"
| "Promise_all (p # ps) =
     (case p of
        Inl e \<Rightarrow> Inl e
      | Inr v \<Rightarrow> (case Promise_all ps of Inl e \<Rightarrow> Inl e | Inr vs \<Rightarrow> Inr (v # vs)))"

text \<open>
  The first two bindings of \<open>handleCreatePool\<close>. \<open>poolSelection\<close> holds the numeric
  \<open>id\<close>s of the chosen routes. The object \<open>api\<close> is not defined in the file, so
  \<open>api.getCompliance\<close> is the parameter \<open>getCompliance\<close>, a call that returns a
  \<open>ComplianceResult\<close> or throws.
\<close>

definition selectedRoutes :: "Route list \<Rightarrow> int list \<Rightarrow> Route list" where
  "selectedRoutes rs poolSelection = filter (\<lambda>r. route_pk r \<in> set poolSelection) rs"

definition members ::
    "(string \<Rightarrow> error + ComplianceResult) \<Rightarrow> Route list \<Rightarrow> int list \<Rightarrow> error + PoolMember list" where
  "members getCompliance rs poolSelection =
     Promise_all (map (\<lambda>r. case getCompliance (routeId r) of
                             Inl e \<Rightarrow> Inl e
                           | Inr comp' \<Rightarrow> Inr (r, comp'))
                      (selectedRoutes rs poolSelection))"

text \<open>
  \<open>handleCreatePool\<close>: the value it passes to \<open>setPoolResult\<close>, or the error of a failed
  compliance request. \<open>Array.prototype.sort\<close> is stable, and the comparator
  \<open>(a, b) => b.adjustedCB - a.adjustedCB\<close> orders by descending \<open>adjustedCB\<close>: this is the
  stable sort on the key \<open>- adjustedCB\<close>.
\<close>

definition handleCreatePool ::
    "(string \<Rightarrow> error + ComplianceResult) \<Rightarrow> Route list \<Rightarrow> int list \<Rightarrow> error + PoolResult" where
  "handleCreatePool getCompliance rs poolSelection =
     (case members getCompliance rs poolSelection of
        Inl e \<Rightarrow> Inl e
      | Inr ms \<Rightarrow>
          (let totalCB' = foldl (\<lambda>acc cur. acc + adjustedCB (snd cur)) 0 ms;
               sorted' = sort_key (\<lambda>m. - adjustedCB (snd m)) ms;
               results' = map (\<lambda>m. \<lparr>alloc_id = routeId (fst m),
                                     before = adjustedCB (snd m),
                                     after = (if totalCB' \<ge> 0
                                              then (if adjustedCB (snd m) < 0 then 0
                                                    else adjustedCB (snd m))
                                              else adjustedCB (snd m))\<rparr>)
                              sorted'
           in Inr \<lparr>totalCB = totalCB', results = results', valid = (totalCB' \<ge> 0)\<rparr>))"

text \<open>
  The button "Verify & Create Pool": \<open>disabled={poolSelection.length < 2}\<close> and
  \<open>onClick={handleCreatePool}\<close>. A click on a disabled button runs no handler and leaves
  the state \<open>poolResult\<close> as it is.
\<close>

definition createPoolButton_disabled :: "int list \<Rightarrow> bool" where
  "createPoolButton_disabled poolSelection = (length poolSelection < 2)"

definition createPoolButton_click ::
    "(string \<Rightarrow> error + ComplianceResult) \<Rightarrow> Route list \<Rightarrow> int list \<Rightarrow> PoolResult option
       \<Rightarrow> error + PoolResult option" where
  "createPoolButton_click getCompliance rs poolSelection poolResult =
     (if createPoolButton_disabled poolSelection then Inr poolResult
      else (case handleCreatePool getCompliance rs poolSelection of
              Inl e \<Rightarrow> Inl e
            | Inr r \<Rightarrow> Inr (Some r)))"

section \<open>The seeded routes\<close>

text \<open>The five rows that \<open>seedDatabase\<close> and \<open>database.sql\<close> insert into \<open>routes\<close>.\<close>

definition seed_routes :: "Route list" where
  "seed_routes =
     [\<lparr>route_pk = 1, routeId = ''R001'', vesselType = ''Container'', fuelType = ''HFO'',
       year = 2024, ghgIntensity = 91.0, fuelConsumption = 5000, distance = 12000,
       totalEmissions = 4500, isBaseline = False\<rparr>,
      \<lparr>route_pk = 2, routeId = ''R002'', vesselType = ''BulkCarrier'', fuelType = ''LNG'',
       year = 2024, ghgIntensity = 88.0, fuelConsumption = 4800, distance = 11500,
       totalEmissions = 4200, isBaseline = False\<rparr>,
      \<lparr>route_pk = 3, routeId = ''R003'', vesselType = ''Tanker'', fuelType = ''MGO'',
       year = 2024, ghgIntensity = 93.5, fuelConsumption = 5100, distance = 12500,
       totalEmissions = 4700, isBaseline = False\<rparr>,
      \<lparr>route_pk = 4, routeId = ''R004'', vesselType = ''RoRo'', fuelType = ''HFO'',
       year = 2025, ghgIntensity = 89.2, fuelConsumption = 4900, distance = 11800,
       totalEmissions = 4300, isBaseline = False\<rparr>,
      \<lparr>route_pk = 5, routeId = ''R005'', vesselType = ''Container'', fuelType = ''LNG'',
       year = 2025, ghgIntensity = 90.5, fuelConsumption = 4950, distance = 11900,
       totalEmissions = 4400, isBaseline = False\<rparr>]"

definition seed_db :: database where
  "seed_db = \<lparr>routes = seed_routes, bank_entries = [], bank_entries_id_seq = 0\<rparr>"

text \<open>
  A database for examples: the seeded routes and a ledger with entries of three years for
  route R002 and one entry for route R003.
\<close>

definition example_db :: database where
  "example_db = seed_db
     \<lparr>bank_entries :=
        [\<lparr>row_id = 1, route_id = ''R002'', row_year = 2023, row_type = Banked,
          amount_gco2eq = 1000, created_at = 1\<rparr>,
         \<lparr>row_id = 2, route_id = ''R003'', row_year = 2024, row_type = Banked,
          amount_gco2eq = 900000000, created_at = 2\<rparr>,
         \<lparr>row_id = 3, route_id = ''R002'', row_year = 2024, row_type = Applied,
          amount_gco2eq = 400.5, created_at = 3\<rparr>,
         \<lparr>row_id = 4, route_id = ''R002'', row_year = 2025, row_type = Banked,
          amount_gco2eq = 250, created_at = 4\<rparr>],
      bank_entries_id_seq := 4\<rparr>"


text \<open>The compliance request of the examples: every answer comes from \<open>seed_db\<close>.\<close>

definition seed_getCompliance :: "string \<Rightarrow> error + ComplianceResult" where
  "seed_getCompliance ident = calculateCB seed_db ident 2025"

section \<open>Auxiliary facts\<close>

lemma foldl_amount: "foldl (\<lambda>sum e. sum + amount e) a es = a + sum_list (map amount es)"
  by (induction es arbitrary: a) auto

lemma bankEntries_sum:
  "sum_list (map amount (filter (\<lambda>e. entry_type e = t) (PostgresBankingAdapter_findByRouteId db ident)))
   = sum_list (map amount_gco2eq
       (filter (\<lambda>row. route_id row = ident \<and> row_type row = t) (bank_entries db)))"
  by (simp add: PostgresBankingAdapter_findByRouteId_def filter_map comp_def conj_commute)

text \<open>What \<open>calculateCB\<close> returns when it returns: the three fields in closed form.\<close>

lemma calculateCB_Inr:
  "calculateCB db ident yr = Inr st \<longleftrightarrow>
     (\<exists>route. PostgresRouteAdapter_findByRouteId db ident = Some route \<and>
        st = \<lparr>cb = (GHG_TARGET_2025 - ghgIntensity route) * (fuelConsumption route * LCV),
              banked =
                sum_list (map amount_gco2eq
                  (filter (\<lambda>row. route_id row = ident \<and> row_type row = Banked) (bank_entries db)))
                - sum_list (map amount_gco2eq
                  (filter (\<lambda>row. route_id row = ident \<and> row_type row = Applied) (bank_entries db))),
              adjustedCB =
                (GHG_TARGET_2025 - ghgIntensity route) * (fuelConsumption route * LCV)
                + (sum_list (map amount_gco2eq
                    (filter (\<lambda>row. route_id row = ident \<and> row_type row = Banked) (bank_entries db)))
                  - sum_list (map amount_gco2eq
                    (filter (\<lambda>row. route_id row = ident \<and> row_type row = Applied) (bank_entries db))))\<rparr>)"
  by (auto simp add: calculateCB_def Let_def foldl_amount bankEntries_sum split: option.splits)

lemma calculateCB_same_inputs:
  assumes "routes db' = routes db"
    and "filter (\<lambda>row. route_id row = ident) (bank_entries db')
         = filter (\<lambda>row. route_id row = ident) (bank_entries db)"
  shows "calculateCB db' ident yr' = calculateCB db ident yr"
proof -
  have "PostgresRouteAdapter_findByRouteId db' ident = PostgresRouteAdapter_findByRouteId db ident"
    using assms(1) by (simp add: PostgresRouteAdapter_findByRouteId_def)
  moreover have "PostgresBankingAdapter_findByRouteId db' ident
      = PostgresBankingAdapter_findByRouteId db ident"
    using assms(2) by (simp add: PostgresBankingAdapter_findByRouteId_def)
  ultimately show ?thesis
    by (simp add: calculateCB_def cong: option.case_cong)
qed





lemma bankSurplus_rejected:
  "calculateCB db ident yr = Inr status \<Longrightarrow> cb status \<le> 0 \<Longrightarrow>
   bankSurplus db now ident yr = (Inl NegativeBalanceError, db)"
  by (simp add: bankSurplus_def NegativeBalanceError_def)

lemma bankSurplus_accepted:
  "calculateCB db ident yr = Inr status \<Longrightarrow> 0 < cb status \<Longrightarrow>
   fits_INT yr \<Longrightarrow> fits_DECIMAL_15_2 (cb status) \<Longrightarrow>
   bankSurplus db now ident yr =
     (Inr \<lparr>row_id = bank_entries_id_seq db + 1, route_id = ident, row_year = yr,
           row_type = Banked, amount_gco2eq = round_DECIMAL_15_2 (cb status),
           created_at = now\<rparr>,
      db\<lparr>bank_entries := bank_entries db @
            [\<lparr>row_id = bank_entries_id_seq db + 1, route_id = ident, row_year = yr,
              row_type = Banked, amount_gco2eq = round_DECIMAL_15_2 (cb status),
              created_at = now\<rparr>],
         bank_entries_id_seq := bank_entries_id_seq db + 1\<rparr>)"
  by (simp add: bankSurplus_def PostgresBankingAdapter_save_def Let_def)

lemma bankSurplus_database_error:
  "calculateCB db ident yr = Inr status \<Longrightarrow> 0 < cb status \<Longrightarrow>
   \<not> (fits_INT yr \<and> fits_DECIMAL_15_2 (cb status)) \<Longrightarrow>
   bankSurplus db now ident yr =
     (Inl (if \<not> fits_INT yr then IntegerOutOfRange else NumericFieldOverflow), db)"
  by (auto simp add: bankSurplus_def PostgresBankingAdapter_save_def Let_def)

lemma database_errors_distinct:
  "IntegerOutOfRange \<noteq> NegativeBalanceError" "NumericFieldOverflow \<noteq> NegativeBalanceError"
  by (simp_all add: IntegerOutOfRange_def NumericFieldOverflow_def NegativeBalanceError_def)

lemma find_redate:
  "PostgresRouteAdapter_findByRouteId (db\<lparr>routes := map (\<lambda>r. r\<lparr>year := f r\<rparr>) (routes db)\<rparr>) ident
   = map_option (\<lambda>r. r\<lparr>year := f r\<rparr>) (PostgresRouteAdapter_findByRouteId db ident)"
  by (simp add: PostgresRouteAdapter_findByRouteId_def filter_map comp_def split: list.splits)

lemma Promise_all_Inr: "Promise_all ps = Inr vs \<Longrightarrow> ps = map Inr vs"
  by (induction ps arbitrary: vs) (auto split: sum.splits)

lemma Promise_all_Inl: "Promise_all ps = Inl e \<Longrightarrow> Inl e \<in> set ps"
  by (induction ps) (auto split: sum.splits)

text \<open>The members are the selected routes, in order, each with the answer to its request.\<close>

lemma members_Inr:
  assumes "members gc rs sel = Inr ms"
  shows "map fst ms = selectedRoutes rs sel \<and> (\<forall>m\<in>set ms. gc (routeId (fst m)) = Inr (snd m))"
proof -
  let ?f = "\<lambda>r. case gc (routeId r) of Inl e \<Rightarrow> Inl e | Inr comp' \<Rightarrow> Inr (r, comp')"
  have eq: "map ?f (selectedRoutes rs sel) = map Inr ms"
    using assms by (simp add: members_def Promise_all_Inr)
  have "map fst ms = xs \<and> (\<forall>m\<in>set ms. gc (routeId (fst m)) = Inr (snd m))"
    if "map ?f xs = map Inr ms" for xs
    using that
  proof (induction xs arbitrary: ms)
    case Nil
    then show ?case by simp
  next
    case (Cons x xs)
    then obtain m ms' where ms: "ms = m # ms'" by (cases ms) auto
    with Cons.prems have h: "?f x = Inr m" and t: "map ?f xs = map Inr ms'" by auto
    from h have "fst m = x" "gc (routeId x) = Inr (snd m)" by (auto split: sum.splits)
    with Cons.IH [OF t] ms show ?case by simp
  qed
  from this [OF eq] show ?thesis .
qed

lemma members_Inl:
  assumes "members gc rs sel = Inl e"
  shows "\<exists>r\<in>set (selectedRoutes rs sel). gc (routeId r) = Inl e"
proof -
  from assms have "Inl e \<in> set (map (\<lambda>r. case gc (routeId r) of
                                          Inl e \<Rightarrow> Inl e
                                        | Inr comp' \<Rightarrow> Inr (r, comp'))
                                   (selectedRoutes rs sel))"
    unfolding members_def by (rule Promise_all_Inl)
  then show ?thesis by (auto split: sum.splits)
qed

text \<open>When every request of a selected route succeeds, so does \<open>members\<close>.\<close>

lemma members_all:
  assumes "\<forall>r\<in>set (selectedRoutes rs sel). \<not> isl (gc (routeId r))"
  shows "members gc rs sel
         = Inr (map (\<lambda>r. (r, projr (gc (routeId r)))) (selectedRoutes rs sel))"
proof -
  have "Promise_all (map (\<lambda>r. case gc (routeId r) of
                                  Inl e \<Rightarrow> Inl e
                                | Inr comp' \<Rightarrow> Inr (r, comp')) xs)
        = Inr (map (\<lambda>r. (r, projr (gc (routeId r)))) xs)"
    if "\<forall>r\<in>set xs. \<not> isl (gc (routeId r))" for xs
    using that
  proof (induction xs)
    case Nil
    then show ?case by simp
  next
    case (Cons x xs)
    then obtain c where "gc (routeId x) = Inr c"
      by (cases "gc (routeId x)") auto
    with Cons show ?case by simp
  qed
  from this [OF assms] show ?thesis by (simp add: members_def)
qed

lemma foldl_adjustedCB:
  "foldl (\<lambda>acc cur. acc + adjustedCB (snd cur)) a ms
   = a + sum_list (map (\<lambda>m. adjustedCB (snd m)) ms)"
  by (induction ms arbitrary: a) auto

lemma handleCreatePool_Inr:
  "handleCreatePool gc rs sel = Inr out \<longleftrightarrow>
     (\<exists>ms. members gc rs sel = Inr ms \<and>
        out = \<lparr>totalCB = sum_list (map (\<lambda>m. adjustedCB (snd m)) ms),
               results =
                 map (\<lambda>m. \<lparr>alloc_id = routeId (fst m), before = adjustedCB (snd m),
                           after = (if 0 \<le> sum_list (map (\<lambda>m. adjustedCB (snd m)) ms)
                                    then (if adjustedCB (snd m) < 0 then 0 else adjustedCB (snd m))
                                    else adjustedCB (snd m))\<rparr>)
                     (sort_key (\<lambda>m. - adjustedCB (snd m)) ms),
               valid = (0 \<le> sum_list (map (\<lambda>m. adjustedCB (snd m)) ms))\<rparr>)"
  by (auto simp add: handleCreatePool_def Let_def foldl_adjustedCB split: sum.splits)

lemma sorted_descending:
  "sorted_wrt (\<ge>) (map (\<lambda>m. adjustedCB (snd m))
                     (sort_key (\<lambda>m. - adjustedCB (snd m)) (ms :: PoolMember list)))"
proof -
  have "sorted (map (\<lambda>m. - adjustedCB (snd m)) (sort_key (\<lambda>m. - adjustedCB (snd m)) ms))"
    by (rule sorted_sort_key)
  then show ?thesis
    by (simp add: sorted_wrt_map)
qed

subsection \<open>Evaluations on the example databases\<close>

lemmas example_defs =
  example_db_def seed_db_def seed_routes_def seed_getCompliance_def
  PostgresRouteAdapter_findByRouteId_def PostgresBankingAdapter_findByRouteId_def
  GHG_TARGET_2025_def LCV_def

lemma find_seed_R001:
  "PostgresRouteAdapter_findByRouteId seed_db ''R001'' = Some (seed_routes ! 0)"
  by (simp add: example_defs)

lemma find_seed_R002:
  "PostgresRouteAdapter_findByRouteId seed_db ''R002'' = Some (seed_routes ! 1)"
  by (simp add: example_defs)

lemma find_example_R002:
  "PostgresRouteAdapter_findByRouteId example_db ''R002'' = Some (seed_routes ! 1)"
  by (simp add: example_defs)


lemma seed_requests_succeed:
  "\<forall>r\<in>set (selectedRoutes seed_routes sel). \<not> isl (seed_getCompliance (routeId r))"
  by (simp add: selectedRoutes_def calculateCB_def Let_def example_defs)

lemma calculateCB_example_R002:
  "calculateCB example_db ''R002'' yr
   = Inr \<lparr>cb = 263082240, banked = 849.5, adjustedCB = 263083089.5\<rparr>"
  by (simp add: calculateCB_def Let_def example_defs)

lemma calculateCB_example_R003:
  "calculateCB example_db ''R003'' yr
   = Inr \<lparr>cb = - 870525120, banked = 900000000, adjustedCB = 29474880\<rparr>"
  by (simp add: calculateCB_def Let_def example_defs)

lemma handleCreatePool_seed_three:
  "handleCreatePool seed_getCompliance seed_routes [5, 2, 4]
   = Inr \<lparr>totalCB = 54493920,
          results = [\<lparr>alloc_id = ''R002'', before = 263082240, after = 263082240\<rparr>,
                     \<lparr>alloc_id = ''R004'', before = 27483120, after = 27483120\<rparr>,
                     \<lparr>alloc_id = ''R005'', before = - 236071440, after = 0\<rparr>],
          valid = True\<rparr>"
  by (simp add: handleCreatePool_def members_def selectedRoutes_def calculateCB_def Let_def
      example_defs)

lemma handleCreatePool_seed_two:
  "handleCreatePool seed_getCompliance seed_routes [1, 2]
   = Inr \<lparr>totalCB = - 77873760,
          results = [\<lparr>alloc_id = ''R002'', before = 263082240, after = 263082240\<rparr>,
                     \<lparr>alloc_id = ''R001'', before = - 340956000, after = - 340956000\<rparr>],
          valid = False\<rparr>"
  by (simp add: handleCreatePool_def members_def selectedRoutes_def calculateCB_def Let_def
      example_defs)

section \<open>The compliance balance\<close>

text \<open>
  C1. For every route, the raw compliance balance computed by \<open>calculateCB\<close> is the
  GHG-intensity target minus the GHG intensity of the route, multiplied by the energy in
  scope, and the energy in scope is the fuel consumption of the route multiplied by the
  one constant LCV = 41000.
\<close>

theorem calculateCB_raw_formula:
  assumes "PostgresRouteAdapter_findByRouteId db ident = Some route"
  shows "\<exists>st. calculateCB db ident yr = Inr st
           \<and> cb st = (GHG_TARGET_2025 - ghgIntensity route) * (fuelConsumption route * LCV)
           \<and> LCV = 41000"
  using assms by (simp add: calculateCB_def Let_def LCV_def)

text \<open>
  The example of the specification: GHG intensity 88.0 and 4800 t of fuel (route R002) give
  the energy 196 800 000 and the raw balance 1.3368 * 196 800 000 = 263 082 240.
\<close>

theorem calculateCB_raw_formula_witness:
  "PostgresRouteAdapter_findByRouteId seed_db ''R002'' = Some (seed_routes ! 1)
   \<and> (\<exists>st. calculateCB seed_db ''R002'' 2024 = Inr st \<and> cb st = 263082240)"
proof -
  have "(GHG_TARGET_2025 - ghgIntensity (seed_routes ! 1))
          * (fuelConsumption (seed_routes ! 1) * LCV) = 263082240"
    by (simp add: seed_routes_def GHG_TARGET_2025_def LCV_def)
  with calculateCB_raw_formula [OF find_seed_R002, of 2024] find_seed_R002
  show ?thesis by auto
qed

text \<open>
  C2. For every \<open>ComplianceResult\<close> that \<open>calculateCB\<close> returns, the adjusted balance is
  the raw balance plus the net banked amount.
\<close>

theorem calculateCB_adjusted:
  assumes "calculateCB db ident yr = Inr st"
  shows "adjustedCB st = cb st + banked st"
  using assms by (auto simp: calculateCB_Inr)

text \<open>Route R002 with its ledger of \<open>example_db\<close>: 263 082 240 + 849.5 = 263 083 089.5.\<close>

theorem calculateCB_adjusted_witness:
  "calculateCB example_db ''R002'' 2024
     = Inr \<lparr>cb = 263082240, banked = 849.5, adjustedCB = 263083089.5\<rparr>
   \<and> adjustedCB \<lparr>cb = 263082240, banked = 849.5, adjustedCB = 263083089.5\<rparr>
     = cb \<lparr>cb = 263082240, banked = 849.5, adjustedCB = 263083089.5\<rparr>
       + banked \<lparr>cb = 263082240, banked = 849.5, adjustedCB = 263083089.5\<rparr>"
  using calculateCB_adjusted [OF calculateCB_example_R002 [of 2024]]
    calculateCB_example_R002 [of 2024]
  by blast

text \<open>
  C3. For every route, \<open>calculateCB\<close> returns a result whose net banked amount is the sum
  of the banked amounts minus the sum of the applied amounts over exactly the ledger rows
  with the identifier of that route. The rows are not restricted by year, and rows of
  other routes do not contribute: any ledger with the same rows for this route gives the
  same result, for any requested year.
\<close>

theorem calculateCB_netBanked:
  assumes "PostgresRouteAdapter_findByRouteId db ident = Some route"
  shows "\<exists>st. calculateCB db ident yr = Inr st
       \<and> banked st =
           sum_list (map amount_gco2eq
             (filter (\<lambda>row. route_id row = ident \<and> row_type row = Banked) (bank_entries db)))
           - sum_list (map amount_gco2eq
             (filter (\<lambda>row. route_id row = ident \<and> row_type row = Applied) (bank_entries db)))
       \<and> (\<forall>db' yr'. routes db' = routes db
               \<and> filter (\<lambda>row. route_id row = ident) (bank_entries db')
                 = filter (\<lambda>row. route_id row = ident) (bank_entries db)
             \<longrightarrow> calculateCB db' ident yr' = Inr st)"
proof -
  from assms obtain st where st: "calculateCB db ident yr = Inr st"
    by (auto simp: calculateCB_Inr)
  then have "banked st =
           sum_list (map amount_gco2eq
             (filter (\<lambda>row. route_id row = ident \<and> row_type row = Banked) (bank_entries db)))
           - sum_list (map amount_gco2eq
             (filter (\<lambda>row. route_id row = ident \<and> row_type row = Applied) (bank_entries db)))"
    by (auto simp: calculateCB_Inr)
  moreover have "calculateCB db' ident yr' = Inr st"
    if "routes db' = routes db"
      and "filter (\<lambda>row. route_id row = ident) (bank_entries db')
           = filter (\<lambda>row. route_id row = ident) (bank_entries db)"
    for db' yr'
    using calculateCB_same_inputs [OF that, of yr' yr] st by simp
  ultimately show ?thesis using st by blast
qed

text \<open>
  In \<open>example_db\<close> route R002 has banked 1000 in 2023, applied 400.5 in 2024 and banked
  250 in 2025; route R003 has banked 900 000 000. Asked for the year 2024, the net banked
  amount of R002 is 1000 + 250 - 400.5 = 849.5, and the result is the same, asked for the
  year 2026, on the ledger without the row of R003.
\<close>

theorem calculateCB_netBanked_witness:
  "PostgresRouteAdapter_findByRouteId example_db ''R002'' = Some (seed_routes ! 1)
   \<and> (\<exists>st. calculateCB example_db ''R002'' 2024 = Inr st
         \<and> banked st = (1000 + 250) - 400.5
         \<and> calculateCB
              (example_db\<lparr>bank_entries :=
                 [\<lparr>row_id = 1, route_id = ''R002'', row_year = 2023, row_type = Banked,
                   amount_gco2eq = 1000, created_at = 1\<rparr>,
                  \<lparr>row_id = 3, route_id = ''R002'', row_year = 2024, row_type = Applied,
                   amount_gco2eq = 400.5, created_at = 3\<rparr>,
                  \<lparr>row_id = 4, route_id = ''R002'', row_year = 2025, row_type = Banked,
                   amount_gco2eq = 250, created_at = 4\<rparr>]\<rparr>)
              ''R002'' 2026 = Inr st)"
proof -
  let ?db' = "example_db\<lparr>bank_entries :=
           [\<lparr>row_id = 1, route_id = ''R002'', row_year = 2023, row_type = Banked,
             amount_gco2eq = 1000, created_at = 1\<rparr>,
            \<lparr>row_id = 3, route_id = ''R002'', row_year = 2024, row_type = Applied,
             amount_gco2eq = 400.5, created_at = 3\<rparr>,
            \<lparr>row_id = 4, route_id = ''R002'', row_year = 2025, row_type = Banked,
             amount_gco2eq = 250, created_at = 4\<rparr>]\<rparr>"
  from calculateCB_netBanked [OF find_example_R002, of 2024]
  obtain st where st: "calculateCB example_db ''R002'' 2024 = Inr st"
    and sum: "banked st =
           sum_list (map amount_gco2eq
             (filter (\<lambda>row. route_id row = ''R002'' \<and> row_type row = Banked)
                (bank_entries example_db)))
           - sum_list (map amount_gco2eq
             (filter (\<lambda>row. route_id row = ''R002'' \<and> row_type row = Applied)
                (bank_entries example_db)))"
    and others: "\<forall>db' yr'. routes db' = routes example_db
               \<and> filter (\<lambda>row. route_id row = ''R002'') (bank_entries db')
                 = filter (\<lambda>row. route_id row = ''R002'') (bank_entries example_db)
             \<longrightarrow> calculateCB db' ''R002'' yr' = Inr st"
    by blast
  have same: "routes ?db' = routes example_db
      \<and> filter (\<lambda>row. route_id row = ''R002'') (bank_entries ?db')
        = filter (\<lambda>row. route_id row = ''R002'') (bank_entries example_db)"
    by (simp add: example_db_def)
  from sum have "banked st = (1000 + 250) - 400.5"
    by (simp add: example_db_def seed_db_def)
  moreover from others same have "calculateCB ?db' ''R002'' 2026 = Inr st"
    by blast
  ultimately show ?thesis using st find_example_R002 by blast
qed

text \<open>
  C10. The result of \<open>calculateCB\<close> does not depend on its year argument: for one database,
  two calls for the same route with any two years return the same result, an error or a
  \<open>ComplianceResult\<close> with the same three fields.
\<close>

theorem calculateCB_year_independent:
  "calculateCB db ident y1 = calculateCB db ident y2"
  by (simp add: calculateCB_def)

text \<open>
  C8 as the code has it. For every route, whatever its year, \<open>calculateCB\<close> applies the one
  constant \<open>GHG_TARGET_2025\<close> = 89.3368: the raw balance is (89.3368 - GHG intensity) *
  (fuel consumption * LCV), and giving the routes any other years leaves the result as it is.
\<close>

theorem calculateCB_target_every_year:
  assumes "PostgresRouteAdapter_findByRouteId db ident = Some route"
  shows "\<exists>st. calculateCB db ident yr = Inr st
           \<and> cb st = (GHG_TARGET_2025 - ghgIntensity route) * (fuelConsumption route * LCV)
           \<and> GHG_TARGET_2025 = 89.3368
           \<and> (\<forall>f. calculateCB (db\<lparr>routes := map (\<lambda>r. r\<lparr>year := f r\<rparr>) (routes db)\<rparr>) ident yr
                    = Inr st)"
proof -
  have "calculateCB (db\<lparr>routes := map (\<lambda>r. r\<lparr>year := f r\<rparr>) (routes db)\<rparr>) ident yr
        = calculateCB db ident yr" for f
    using assms by (simp add: calculateCB_def find_redate PostgresBankingAdapter_findByRouteId_def)
  with assms show ?thesis
    by (simp add: calculateCB_def Let_def GHG_TARGET_2025_def)
qed

text \<open>
  Route R001 of the year 2024: its raw balance is (89.3368 - 91) * (5000 * 41000) =
  -340 956 000, and it stays so when every route is moved to the year 2030.
\<close>

theorem calculateCB_target_every_year_witness:
  "PostgresRouteAdapter_findByRouteId seed_db ''R001'' = Some (seed_routes ! 0)
   \<and> year (seed_routes ! 0) = 2024
   \<and> (\<exists>st. calculateCB seed_db ''R001'' 2024 = Inr st
         \<and> cb st = - 340956000
         \<and> calculateCB (seed_db\<lparr>routes := map (\<lambda>r. r\<lparr>year := 2030\<rparr>) (routes seed_db)\<rparr>)
              ''R001'' 2024 = Inr st)"
proof -
  have "(GHG_TARGET_2025 - ghgIntensity (seed_routes ! 0))
          * (fuelConsumption (seed_routes ! 0) * LCV) = - 340956000"
    and "year (seed_routes ! 0) = 2024"
    by (simp_all add: seed_routes_def GHG_TARGET_2025_def LCV_def)
  with calculateCB_target_every_year [OF find_seed_R001, of 2024] find_seed_R001
  show ?thesis by auto
qed

text \<open>
  C8 as the specification states it fails: R001 is a route of the year 2024 and R004 a
  route of the year 2025, and the balance of both is computed with the value 89.3368 of
  \<open>GHG_TARGET_2025\<close>.
\<close>

theorem calculateCB_year_target_counterexample:
  "map_option year (PostgresRouteAdapter_findByRouteId seed_db ''R001'') = Some 2024
   \<and> calculateCB seed_db ''R001'' 2024
       = Inr \<lparr>cb = (89.3368 - 91.0) * (5000 * 41000), banked = 0,
              adjustedCB = (89.3368 - 91.0) * (5000 * 41000)\<rparr>
   \<and> map_option year (PostgresRouteAdapter_findByRouteId seed_db ''R004'') = Some 2025
   \<and> calculateCB seed_db ''R004'' 2025
       = Inr \<lparr>cb = (89.3368 - 89.2) * (4900 * 41000), banked = 0,
              adjustedCB = (89.3368 - 89.2) * (4900 * 41000)\<rparr>
   \<and> GHG_TARGET_2025 = 89.3368"
  by (simp add: calculateCB_def Let_def example_defs)

section \<open>Banking\<close>

text \<open>
  C4. \<open>bankSurplus\<close> fails with \<open>NegativeBalanceError\<close> exactly when the raw balance that
  it recomputes is at most 0, whatever the adjusted balance is, and a call that fails
  leaves the database, and so the ledger, as it was.
\<close>

theorem bankSurplus_rejects_iff:
  assumes "calculateCB db ident yr = Inr status"
  shows "(fst (bankSurplus db now ident yr) = Inl NegativeBalanceError \<longleftrightarrow> cb status \<le> 0)
       \<and> (isl (fst (bankSurplus db now ident yr)) \<longrightarrow> snd (bankSurplus db now ident yr) = db)"
proof (cases "cb status \<le> 0")
  case True
  with assms show ?thesis by (simp add: bankSurplus_rejected)
next
  case False
  then have pos: "0 < cb status" by simp
  show ?thesis
  proof (cases "fits_INT yr \<and> fits_DECIMAL_15_2 (cb status)")
    case True
    with assms pos False show ?thesis by (simp add: bankSurplus_accepted)
  next
    case False
    from bankSurplus_database_error [OF assms pos False, of now] \<open>\<not> cb status \<le> 0\<close>
    show ?thesis by (simp add: database_errors_distinct)
  qed
qed

text \<open>
  Route R003 (GHG intensity 93.5) in \<open>example_db\<close>: the raw balance is -870 525 120 and,
  with 900 000 000 banked, the adjusted balance is positive. The call fails and the
  database is unchanged.
\<close>

theorem bankSurplus_rejects_iff_witness:
  "calculateCB example_db ''R003'' 2024
     = Inr \<lparr>cb = - 870525120, banked = 900000000, adjustedCB = 29474880\<rparr>
   \<and> fst (bankSurplus example_db 9 ''R003'' 2024) = Inl NegativeBalanceError
   \<and> snd (bankSurplus example_db 9 ''R003'' 2024) = example_db"
  using bankSurplus_rejects_iff [OF calculateCB_example_R003 [of 2024], of 9]
    calculateCB_example_R003 [of 2024]
  by simp




section \<open>Pooling\<close>

text \<open>
  C6. For every list of pool members, that is the selected routes each with the answer to
  its compliance request, \<open>handleCreatePool\<close> reports as total the sum of the adjusted
  balances of the members, and reports the pool valid exactly when that sum is at least 0.
  (It reports whenever every request succeeds.)
\<close>

theorem handleCreatePool_total_valid:
  assumes "\<forall>r\<in>set (selectedRoutes rs sel). \<not> isl (gc (routeId r))"
  shows "\<exists>out. handleCreatePool gc rs sel = Inr out
           \<and> members gc rs sel
               = Inr (map (\<lambda>r. (r, projr (gc (routeId r)))) (selectedRoutes rs sel))
           \<and> totalCB out
               = sum_list (map (\<lambda>r. adjustedCB (projr (gc (routeId r))))
                               (selectedRoutes rs sel))
           \<and> valid out
               = (0 \<le> sum_list (map (\<lambda>r. adjustedCB (projr (gc (routeId r))))
                                    (selectedRoutes rs sel)))"
proof -
  let ?ms = "map (\<lambda>r. (r, projr (gc (routeId r)))) (selectedRoutes rs sel)"
  have ms: "members gc rs sel = Inr ?ms"
    using assms by (rule members_all)
  then obtain out where out: "handleCreatePool gc rs sel = Inr out"
    by (auto simp: handleCreatePool_Inr)
  with ms have "totalCB out = sum_list (map (\<lambda>m. adjustedCB (snd m)) ?ms)"
    and "valid out = (0 \<le> sum_list (map (\<lambda>m. adjustedCB (snd m)) ?ms))"
    by (auto simp: handleCreatePool_Inr)
  with ms out show ?thesis by (simp add: comp_def)
qed

text \<open>
  The pool of the routes R002, R004 and R005: the adjusted balances 263 082 240,
  27 483 120 and -236 071 440 sum to 54 493 920, and the pool is valid. The pool of R001
  and R002 has the total -340 956 000 + 263 082 240 = -77 873 760 and is not valid.
\<close>

theorem handleCreatePool_total_valid_witness:
  "(\<exists>out. handleCreatePool seed_getCompliance seed_routes [5, 2, 4] = Inr out
         \<and> totalCB out = 263082240 + 27483120 + - 236071440
         \<and> valid out = True)
   \<and> (\<exists>out. handleCreatePool seed_getCompliance seed_routes [1, 2] = Inr out
         \<and> totalCB out = - 340956000 + 263082240
         \<and> valid out = False)"
proof -
  have s3: "sum_list (map (\<lambda>r. adjustedCB (projr (seed_getCompliance (routeId r))))
                          (selectedRoutes seed_routes [5, 2, 4]))
            = 263082240 + 27483120 + - 236071440"
    and s2: "sum_list (map (\<lambda>r. adjustedCB (projr (seed_getCompliance (routeId r))))
                          (selectedRoutes seed_routes [1, 2]))
            = - 340956000 + 263082240"
    by (simp_all add: selectedRoutes_def calculateCB_def Let_def example_defs)
  from handleCreatePool_total_valid [OF seed_requests_succeed [of "[5, 2, 4]"]] s3
  have a: "\<exists>out. handleCreatePool seed_getCompliance seed_routes [5, 2, 4] = Inr out
         \<and> totalCB out = 263082240 + 27483120 + - 236071440
         \<and> valid out = True"
    by auto
  from handleCreatePool_total_valid [OF seed_requests_succeed [of "[1, 2]"]] s2
  have b: "\<exists>out. handleCreatePool seed_getCompliance seed_routes [1, 2] = Inr out
         \<and> totalCB out = - 340956000 + 263082240
         \<and> valid out = False"
    by auto
  from a b show ?thesis by blast
qed

text \<open>
  C7. The allocation of \<open>handleCreatePool\<close> lists the members in descending order of
  adjusted balance, each with its adjusted balance as \<open>before\<close>. The pool is valid exactly
  when the adjusted balances sum to at least 0. In a valid pool a member with a negative
  \<open>before\<close> has \<open>after\<close> = 0 and a member with a non-negative \<open>before\<close> has \<open>after\<close> =
  \<open>before\<close>; in an invalid pool every member has \<open>after\<close> = \<open>before\<close>. (The allocation is
  made whenever every request succeeds.)
\<close>

theorem handleCreatePool_allocation:
  assumes "\<forall>r\<in>set (selectedRoutes rs sel). \<not> isl (gc (routeId r))"
  shows "\<exists>out. handleCreatePool gc rs sel = Inr out
           \<and> mset (map (\<lambda>a. (alloc_id a, before a)) (results out))
               = mset (map (\<lambda>r. (routeId r, adjustedCB (projr (gc (routeId r)))))
                           (selectedRoutes rs sel))
           \<and> sorted_wrt (\<ge>) (map before (results out))
           \<and> valid out
               = (0 \<le> sum_list (map (\<lambda>r. adjustedCB (projr (gc (routeId r))))
                                    (selectedRoutes rs sel)))
           \<and> (valid out \<longrightarrow> (\<forall>a\<in>set (results out).
                  (before a < 0 \<longrightarrow> after a = 0) \<and> (0 \<le> before a \<longrightarrow> after a = before a)))
           \<and> (\<not> valid out \<longrightarrow> (\<forall>a\<in>set (results out). after a = before a))"
proof -
  let ?ms = "map (\<lambda>r. (r, projr (gc (routeId r)))) (selectedRoutes rs sel)"
  have ms: "members gc rs sel = Inr ?ms"
    using assms by (rule members_all)
  then obtain out where res: "handleCreatePool gc rs sel = Inr out"
    by (auto simp: handleCreatePool_Inr)
  with ms have out: "out = \<lparr>totalCB = sum_list (map (\<lambda>m. adjustedCB (snd m)) ?ms),
               results =
                 map (\<lambda>m. \<lparr>alloc_id = routeId (fst m), before = adjustedCB (snd m),
                           after = (if 0 \<le> sum_list (map (\<lambda>m. adjustedCB (snd m)) ?ms)
                                    then (if adjustedCB (snd m) < 0 then 0 else adjustedCB (snd m))
                                    else adjustedCB (snd m))\<rparr>)
                     (sort_key (\<lambda>m. - adjustedCB (snd m)) ?ms),
               valid = (0 \<le> sum_list (map (\<lambda>m. adjustedCB (snd m)) ?ms))\<rparr>"
    by (auto simp: handleCreatePool_Inr)
  have perm': "mset (map (\<lambda>a. (alloc_id a, before a)) (results out))
               = mset (map (\<lambda>r. (routeId r, adjustedCB (projr (gc (routeId r)))))
                           (selectedRoutes rs sel))"
    by (simp add: out comp_def multiset.map_comp)
  have srt: "sorted_wrt (\<ge>) (map before (results out))"
    using sorted_descending [of ?ms] by (simp add: out comp_def)
  have vl: "valid out
               = (0 \<le> sum_list (map (\<lambda>r. adjustedCB (projr (gc (routeId r))))
                                    (selectedRoutes rs sel)))"
    by (simp add: out comp_def)
  have v: "valid out \<longrightarrow> (\<forall>a\<in>set (results out).
                  (before a < 0 \<longrightarrow> after a = 0) \<and> (0 \<le> before a \<longrightarrow> after a = before a))"
    by (auto simp: out)
  have nv: "\<not> valid out \<longrightarrow> (\<forall>a\<in>set (results out). after a = before a)"
    by (auto simp: out)
  from res perm' srt vl v nv show ?thesis by blast
qed

text \<open>
  Two pools. R002, R004 and R005 form a valid pool: R005, the member with a negative
  balance, has \<open>after\<close> = 0 and the others keep their balance. R001 and R002 form an
  invalid pool (total -77 873 760): both keep their balance.
\<close>

theorem handleCreatePool_allocation_witness:
  "handleCreatePool seed_getCompliance seed_routes [5, 2, 4]
     = Inr \<lparr>totalCB = 54493920,
            results = [\<lparr>alloc_id = ''R002'', before = 263082240, after = 263082240\<rparr>,
                       \<lparr>alloc_id = ''R004'', before = 27483120, after = 27483120\<rparr>,
                       \<lparr>alloc_id = ''R005'', before = - 236071440, after = 0\<rparr>],
            valid = True\<rparr>
   \<and> sorted_wrt (\<ge>) [263082240, 27483120, - 236071440 :: number]
   \<and> after \<lparr>alloc_id = ''R005'', before = - 236071440, after = 0\<rparr> = 0
   \<and> after \<lparr>alloc_id = ''R004'', before = 27483120, after = 27483120\<rparr>
     = before \<lparr>alloc_id = ''R004'', before = 27483120, after = 27483120\<rparr>
   \<and> handleCreatePool seed_getCompliance seed_routes [1, 2]
     = Inr \<lparr>totalCB = - 77873760,
            results = [\<lparr>alloc_id = ''R002'', before = 263082240, after = 263082240\<rparr>,
                       \<lparr>alloc_id = ''R001'', before = - 340956000, after = - 340956000\<rparr>],
            valid = False\<rparr>
   \<and> after \<lparr>alloc_id = ''R001'', before = - 340956000, after = - 340956000\<rparr>
     = before \<lparr>alloc_id = ''R001'', before = - 340956000, after = - 340956000\<rparr>"
  using handleCreatePool_allocation [OF seed_requests_succeed [of "[5, 2, 4]"]]
    handleCreatePool_allocation [OF seed_requests_succeed [of "[1, 2]"]]
    handleCreatePool_seed_three handleCreatePool_seed_two
  by simp

text \<open>
  C9 as the code has it. \<open>handleCreatePool\<close> has no failure for a small pool: called with
  fewer than two identifiers it fails only when the compliance request of a selected route
  fails, and with no identifier it reports the total 0, a valid pool and no allocation.
  Pools of fewer than two are held back by the caller: the button that calls
  \<open>handleCreatePool\<close> is disabled then, and a click leaves the pool result as it is.
\<close>

theorem handleCreatePool_fewer_than_two:
  assumes "length sel < 2"
  shows "createPoolButton_click gc rs sel pr = Inr pr
       \<and> (\<forall>e. handleCreatePool gc rs sel = Inl e
             \<longrightarrow> (\<exists>r\<in>set (selectedRoutes rs sel). gc (routeId r) = Inl e))
       \<and> (sel = [] \<longrightarrow> handleCreatePool gc rs sel
                         = Inr \<lparr>totalCB = 0, results = [], valid = True\<rparr>)"
proof -
  have a: "createPoolButton_click gc rs sel pr = Inr pr"
    using assms by (simp add: createPoolButton_click_def createPoolButton_disabled_def)
  have b: "\<exists>r\<in>set (selectedRoutes rs sel). gc (routeId r) = Inl e"
    if "handleCreatePool gc rs sel = Inl e" for e
  proof -
    from that have "members gc rs sel = Inl e"
      by (auto simp: handleCreatePool_def Let_def split: sum.splits)
    then show ?thesis by (rule members_Inl)
  qed
  have c: "handleCreatePool gc rs [] = Inr \<lparr>totalCB = 0, results = [], valid = True\<rparr>"
    by (simp add: handleCreatePool_def members_def selectedRoutes_def)
  from a b c show ?thesis by blast
qed

text \<open>
  With no route selected and with only R001 selected the click changes nothing; with no
  route selected \<open>handleCreatePool\<close> itself returns the empty, valid pool.
\<close>

theorem handleCreatePool_fewer_than_two_witness:
  "length ([] :: int list) < 2 \<and> length [1 :: int] < 2
   \<and> createPoolButton_click seed_getCompliance seed_routes [] None = Inr None
   \<and> createPoolButton_click seed_getCompliance seed_routes [1] None = Inr None
   \<and> handleCreatePool seed_getCompliance seed_routes []
     = Inr \<lparr>totalCB = 0, results = [], valid = True\<rparr>"
proof -
  have h0: "length ([] :: int list) < 2" and h1: "length [1 :: int] < 2"
    by simp_all
  from handleCreatePool_fewer_than_two [OF h0, of seed_getCompliance seed_routes None]
    handleCreatePool_fewer_than_two [OF h1, of seed_getCompliance seed_routes None]
    h0 h1
  show ?thesis by blast
qed

text \<open>
  C9 as the specification states it fails: called with the one identifier of R001,
  \<open>handleCreatePool\<close> does not fail; it returns an invalid pool of one member.
\<close>

theorem handleCreatePool_one_member_counterexample:
  "handleCreatePool seed_getCompliance seed_routes [1]
   = Inr \<lparr>totalCB = - 340956000,
          results = [\<lparr>alloc_id = ''R001'', before = - 340956000, after = - 340956000\<rparr>],
          valid = False\<rparr>"
  by (simp add: handleCreatePool_def members_def selectedRoutes_def calculateCB_def Let_def
      example_defs)

end
